theory Spec2Isabelle
  imports Main
begin

section \<open>The quiz sheet parser of \<^verbatim>\<open>upload.py\<close>\<close>

text \<open>
  The endpoint \<^verbatim>\<open>parse_quiz_excel\<close> of \<^verbatim>\<open>src/upload.py\<close> receives an uploaded file, a quiz
  type and a flag, reads the file with pandas and walks the rows of the data frame. The
  embedding below follows the function line by line. Two things are not Python of the
  repository and enter as data:
  \<^item> the result of \<^verbatim>\<open>pd.read_excel\<close>: either the text of the exception it raised or
    the data frame (column names and rows of cells);
  \<^item> what \<^verbatim>\<open>str\<close> gives for a cell that is not text (a number, a boolean, a date): the
    cell carries that text.
  Strings are lists of characters, a character standing for the code point of the same
  number (below 256).
\<close>

subsection \<open>Python values\<close>

text \<open>
  The dictionaries the function builds keep their keys: a dictionary is the list of its
  items in insertion order, which is also the order of the JSON that is sent.
\<close>

datatype json =
    JStr string
  | JBool bool
  | JInt int
  | JList "json list"
  | JDict "(string \<times> json) list"

text \<open>
  What the endpoint gives back: \<^verbatim>\<open>JSONResponse(status_code=..., content=...)\<close>, or a
  dictionary that is returned as it is.
\<close>

datatype response =
    JSONResponse nat json
  | Return json

text \<open>A cell of the data frame: empty (pandas has NaN there), text, or another scalar.\<close>

datatype cell =
    NaN
  | Str string
  | Other string

record dataframe =
  columns :: "string list"
  rows :: "cell list list"

text \<open>\<^verbatim>\<open>pd.isna\<close> and \<^verbatim>\<open>str\<close> on a cell.\<close>

fun isna :: "cell \<Rightarrow> bool" where
  "isna NaN = True"
| "isna (Str s) = False"
| "isna (Other s) = False"

fun str :: "cell \<Rightarrow> string" where
  "str NaN = ''nan''"
| "str (Str s) = s"
| "str (Other s) = s"

subsection \<open>String methods\<close>

text \<open>\<^verbatim>\<open>str.isspace\<close> on one character: the white space of Python below code point 256.\<close>

definition isspace :: "char \<Rightarrow> bool" where
  "isspace c =
     (let n = (of_char c :: nat)
      in n = 32 \<or> (9 \<le> n \<and> n \<le> 13) \<or> (28 \<le> n \<and> n \<le> 31) \<or> n = 133 \<or> n = 160)"

text \<open>\<^verbatim>\<open>s.strip()\<close>: white space is removed at both ends.\<close>

definition strip :: "string \<Rightarrow> string" where
  "strip s = rev (dropWhile isspace (rev (dropWhile isspace s)))"

text \<open>
  \<^verbatim>\<open>s.lower()\<close>: the capital letters A to Z, and those of Latin-1, move 32 code points up.
\<close>

definition lower_char :: "char \<Rightarrow> char" where
  "lower_char c =
     (let n = (of_char c :: nat)
      in if (65 \<le> n \<and> n \<le> 90) \<or> (192 \<le> n \<and> n \<le> 222 \<and> n \<noteq> 215)
         then char_of (n + 32) else c)"

definition lower :: "string \<Rightarrow> string" where
  "lower s = map lower_char s"

text \<open>
  \<^verbatim>\<open>s.rsplit(sep, 1)\<close> for a separator of one character: the text before the last
  separator and the text after it, or the text alone when it has no separator.
\<close>

definition rsplit1 :: "char \<Rightarrow> string \<Rightarrow> string list" where
  "rsplit1 sep s =
     (if sep \<in> set s
      then [rev (drop 1 (dropWhile (\<lambda>c. c \<noteq> sep) (rev s))),
            rev (takeWhile (\<lambda>c. c \<noteq> sep) (rev s))]
      else [s])"

text \<open>\<^verbatim>\<open>sep.join(parts)\<close>.\<close>

fun join :: "string \<Rightarrow> string list \<Rightarrow> string" where
  "join sep [] = []"
| "join sep [x] = x"
| "join sep (x # y # ys) = x @ sep @ join sep (y # ys)"

text \<open>\<^verbatim>\<open>str(n)\<close> for a row number: its decimal digits.\<close>

definition digit_char :: "nat \<Rightarrow> char" where
  "digit_char d = ''0123456789'' ! d"

fun str_nat :: "nat \<Rightarrow> string" where
  "str_nat n =
     (if n < 10 then [digit_char n] else str_nat (n div 10) @ [digit_char (n mod 10)])"

declare str_nat.simps [simp del]

subsection \<open>Reading a row\<close>

text \<open>
  \<^verbatim>\<open>row.get(col, default)\<close>: a row pairs the column names with its cells. The lookup
  without a default gives None, which \<^verbatim>\<open>pd.isna\<close> treats as it treats NaN.
\<close>

definition row_get :: "string list \<Rightarrow> cell list \<Rightarrow> string \<Rightarrow> cell \<Rightarrow> cell" where
  "row_get cols row col dflt =
     (case map_of (zip cols row) col of None \<Rightarrow> dflt | Some c \<Rightarrow> c)"

text \<open>
  The test \<^verbatim>\<open>pd.isna(raw) or not str(raw).strip()\<close> and the text
  \<^verbatim>\<open>str(raw).strip()\<close> that is used when the test fails (lines 76 to 79, 87 to 90).
\<close>

definition is_blank :: "cell \<Rightarrow> bool" where
  "is_blank raw = (isna raw \<or> strip (str raw) = [])"

subsection \<open>One option cell\<close>

text \<open>
  The body of the inner \<^verbatim>\<open>try\<close> (lines 93 to 110): Inl is the text of the ValueError
  that is raised, Inr the option that is appended.
\<close>

definition format_option :: "string \<Rightarrow> string \<Rightarrow> string + json" where
  "format_option type option_text =
     (let parts = rsplit1 (CHR ''-'') option_text;
          value_parts = butlast parts;
          extra = last parts;
          val = strip (join ''-'' value_parts);
          extra = strip extra
      in if val = [] \<or> extra = [] then Inl ''Empty value or property''
         else if type = ''objective'' then
           (if lower extra \<notin> set [''true'', ''false'']
            then Inl (''Property must be 'true' or 'false'' @ [CHR 0x27])
            else Inr (JDict [(''text'', JStr val), (''isCorrect'', JBool (lower extra = ''true''))]))
         else Inr (JDict [(''text'', JStr val), (''tag'', JStr extra)]))"

text \<open>The message of line 117.\<close>

definition invalid_option_format :: "nat \<Rightarrow> string \<Rightarrow> string \<Rightarrow> string \<Rightarrow> response" where
  "invalid_option_format row_num col option_text e =
     JSONResponse 400 (JDict [(''error'', JStr
       (''Invalid option format in row '' @ str_nat row_num @ '', column ''
        @ [CHR 0x27] @ col @ [CHR 0x27] @ '': '' @ [CHR 0x27] @ option_text @ [CHR 0x27]
        @ ''. Error: '' @ e))])"

text \<open>
  The body of the loop over the columns (lines 83 to 127), from the options appended so
  far: Inl is the response that is returned from inside the loop, Inr the options after
  this column.
\<close>

definition process_column ::
  "bool \<Rightarrow> string \<Rightarrow> nat \<Rightarrow> string list \<Rightarrow> cell list \<Rightarrow> string \<Rightarrow> json list
   \<Rightarrow> response + json list" where
  "process_column require_option_format type index cols row col options =
     (if col = ''question'' then Inr options
      else
        let option_raw = row_get cols row col NaN
        in if is_blank option_raw then Inr options
           else
             let option_text = strip (str option_raw)
             in if require_option_format then
                  (case format_option type option_text of
                     Inl e \<Rightarrow> Inl (invalid_option_format (index + 2) col option_text e)
                   | Inr opt \<Rightarrow> Inr (options @ [opt]))
                else if type = ''objective'' then
                  Inr (options @
                    [JDict [(''text'', JStr option_text), (''isCorrect'', JBool False)]])
                else
                  Inr (options @ [JDict [(''text'', JStr option_text), (''tag'', JStr col)]]))"

text \<open>The loop \<^verbatim>\<open>for col in df.columns\<close>, from the columns still to visit.\<close>

fun options_loop ::
  "bool \<Rightarrow> string \<Rightarrow> nat \<Rightarrow> string list \<Rightarrow> cell list \<Rightarrow> string list \<Rightarrow> json list
   \<Rightarrow> response + json list" where
  "options_loop require_option_format type index cols row [] options = Inr options"
| "options_loop require_option_format type index cols row (col # rest) options =
     (case process_column require_option_format type index cols row col options of
        Inl r \<Rightarrow> Inl r
      | Inr options' \<Rightarrow> options_loop require_option_format type index cols row rest options')"

subsection \<open>One row\<close>

text \<open>Truth of a value, as \<^verbatim>\<open>any\<close> tests it.\<close>

fun truthy :: "json \<Rightarrow> bool" where
  "truthy (JStr s) = (s \<noteq> [])"
| "truthy (JBool b) = b"
| "truthy (JInt i) = (i \<noteq> 0)"
| "truthy (JList xs) = (xs \<noteq> [])"
| "truthy (JDict kvs) = (kvs \<noteq> [])"

text \<open>
  \<^verbatim>\<open>any(option["isCorrect"] for option in options)\<close>: it stops at the first true value;
  an option without the key raises KeyError, whose text is the key in quotes.
\<close>

fun any_isCorrect :: "json list \<Rightarrow> string + bool" where
  "any_isCorrect [] = Inr False"
| "any_isCorrect (JDict kvs # rest) =
     (case map_of kvs ''isCorrect'' of
        None \<Rightarrow> Inl ([CHR 0x27] @ ''isCorrect'' @ [CHR 0x27])
      | Some v \<Rightarrow> if truthy v then Inr True else any_isCorrect rest)"
| "any_isCorrect (opt # rest) = Inl ([CHR 0x27] @ ''isCorrect'' @ [CHR 0x27])"

text \<open>The messages of lines 138 and 148.\<close>

definition no_correct_answer :: "nat \<Rightarrow> response" where
  "no_correct_answer row_num =
     JSONResponse 400 (JDict [(''error'', JStr
       (''Objective question in row '' @ str_nat row_num
        @ '' must have at least one correct answer.''))])"

definition error_processing_row :: "nat \<Rightarrow> string \<Rightarrow> response" where
  "error_processing_row row_num e =
     JSONResponse 400 (JDict [(''error'', JStr
       (''Error processing row '' @ str_nat row_num @ '': '' @ e))])"

text \<open>
  The body of the loop over the rows (lines 74 to 149), from the questions collected so
  far: Inl is the response that is returned from inside the loop, Inr the questions after
  this row.
\<close>

definition process_row ::
  "bool \<Rightarrow> string \<Rightarrow> string list \<Rightarrow> nat \<Rightarrow> cell list \<Rightarrow> json list \<Rightarrow> response + json list" where
  "process_row require_option_format type cols index row questions =
     (let raw_question = row_get cols row ''question'' (Str '''')
      in if is_blank raw_question then Inr questions
         else
           let question_text = strip (str raw_question)
           in case options_loop require_option_format type index cols row cols [] of
                Inl r \<Rightarrow> Inl r
              | Inr options \<Rightarrow>
                  if options = [] then Inr questions
                  else if type = ''objective'' \<and> require_option_format then
                    (case any_isCorrect options of
                       Inl e \<Rightarrow> Inl (error_processing_row (index + 2) e)
                     | Inr found \<Rightarrow>
                         if \<not> found then Inl (no_correct_answer (index + 2))
                         else Inr (questions @
                                [JDict [(''question'', JStr question_text),
                                        (''options'', JList options)]]))
                  else Inr (questions @
                         [JDict [(''question'', JStr question_text),
                                 (''options'', JList options)]]))"

subsection \<open>The rows and the endpoint\<close>

text \<open>\<^verbatim>\<open>df.iterrows()\<close>: the rows with their index, which pandas counts from 0.\<close>

definition iterrows :: "dataframe \<Rightarrow> (nat \<times> cell list) list" where
  "iterrows df = zip [0 ..< length (rows df)] (rows df)"

fun rows_loop ::
  "bool \<Rightarrow> string \<Rightarrow> string list \<Rightarrow> (nat \<times> cell list) list \<Rightarrow> json list
   \<Rightarrow> response + json list" where
  "rows_loop require_option_format type cols [] questions = Inr questions"
| "rows_loop require_option_format type cols ((index, row) # rest) questions =
     (case process_row require_option_format type cols index row questions of
        Inl r \<Rightarrow> Inl r
      | Inr questions' \<Rightarrow> rows_loop require_option_format type cols rest questions')"

definition allowed_types :: "string list" where
  "allowed_types =
     [''application/vnd.openxmlformats-officedocument.spreadsheetml.sheet'',
      ''application/vnd.ms-excel'']"

text \<open>
  The endpoint. \<open>read_excel\<close> is what \<^verbatim>\<open>pd.read_excel(io.BytesIO(contents))\<close> did with
  the file: Inl the text of the exception, Inr the data frame.
\<close>

definition parse_quiz_excel ::
  "string \<Rightarrow> string \<Rightarrow> bool \<Rightarrow> string + dataframe \<Rightarrow> response" where
  "parse_quiz_excel content_type type require_option_format read_excel =
     (if content_type \<notin> set allowed_types then
        JSONResponse 400
          (JDict [(''error'', JStr ''Invalid file type. Only Excel files are allowed.'')])
      else if type \<notin> set [''objective'', ''tag-based''] then
        JSONResponse 400
          (JDict [(''error'', JStr ''Invalid quiz type. Must be 'objective' or 'tag'.'')])
      else
        (case read_excel of
           Inl e \<Rightarrow>
             JSONResponse 400 (JDict [(''error'', JStr (''Error reading Excel file: '' @ e))])
         | Inr df \<Rightarrow>
             if ''question'' \<notin> set (columns df) then
               JSONResponse 400
                 (JDict [(''error'', JStr ''Excel file must contain a 'question' column.'')])
             else
               (case rows_loop require_option_format type (columns df) (iterrows df) [] of
                  Inl r \<Rightarrow> r
                | Inr questions \<Rightarrow>
                    if questions = [] then
                      JSONResponse 400
                        (JDict [(''error'',
                                 JStr ''No valid questions found in the Excel file.'')])
                    else Return (JDict [(''questions'', JList questions),
                                        (''count'', JInt (int (length questions)))]))))"

subsection \<open>Vocabulary of the properties\<close>

text \<open>The three responses that are returned from inside the loop over the rows.\<close>

definition row_error :: "response \<Rightarrow> bool" where
  "row_error r \<longleftrightarrow>
     (\<exists>n c t e. r = invalid_option_format n c t e) \<or>
     (\<exists>n. r = no_correct_answer n) \<or>
     (\<exists>n e. r = error_processing_row n e)"

text \<open>A question as line 142 builds it, with at least one option.\<close>

definition emitted_question :: "json \<Rightarrow> bool" where
  "emitted_question q \<longleftrightarrow>
     (\<exists>t os. q = JDict [(''question'', JStr t), (''options'', JList os)] \<and> os \<noteq> [])"

text \<open>An option of an objective quiz: its text and whether it is correct.\<close>

definition objective_option :: "json \<Rightarrow> bool" where
  "objective_option opt \<longleftrightarrow>
     (\<exists>v b. opt = JDict [(''text'', JStr v), (''isCorrect'', JBool b)])"

text \<open>
  The lenient path for objective quizzes, as the specification words it: every cell that
  is not blank, in a column other than \<^verbatim>\<open>question\<close>, gives the option with the cell's
  trimmed text that is not correct; a row gives a question when its question cell is not
  blank and it has an option; the request fails only when no row gives a question.
\<close>

definition lenient_objective_options :: "string list \<Rightarrow> cell list \<Rightarrow> string list \<Rightarrow> json list" where
  "lenient_objective_options cols row cs =
     map (\<lambda>col. JDict [(''text'', JStr (strip (str (row_get cols row col NaN)))),
                       (''isCorrect'', JBool False)])
         (filter (\<lambda>col. col \<noteq> ''question'' \<and> \<not> is_blank (row_get cols row col NaN)) cs)"

definition lenient_objective_question :: "string list \<Rightarrow> cell list \<Rightarrow> json list" where
  "lenient_objective_question cols row =
     (if is_blank (row_get cols row ''question'' (Str ''''))
         \<or> lenient_objective_options cols row cols = []
      then []
      else [JDict [(''question'', JStr (strip (str (row_get cols row ''question'' (Str ''''))))),
                   (''options'', JList (lenient_objective_options cols row cols))]])"

definition lenient_objective_spec :: "dataframe \<Rightarrow> response" where
  "lenient_objective_spec df =
     (let questions = concat (map (lenient_objective_question (columns df)) (rows df))
      in if questions = [] then
           JSONResponse 400
             (JDict [(''error'', JStr ''No valid questions found in the Excel file.'')])
         else Return (JDict [(''questions'', JList questions),
                             (''count'', JInt (int (length questions)))]))"

section \<open>Properties\<close>

subsection \<open>Splitting a cell\<close>

lemma rsplit1_no_sep: "sep \<notin> set s \<Longrightarrow> rsplit1 sep s = [s]"
  by (simp add: rsplit1_def)

lemma rsplit1_last_sep: "sep \<notin> set e \<Longrightarrow> rsplit1 sep (v @ sep # e) = [v, e]"
proof -
  assume a: "sep \<notin> set e"
  then have all: "\<forall>c\<in>set (rev e). c \<noteq> sep" by auto
  have t: "takeWhile (\<lambda>c. c \<noteq> sep) (rev e @ sep # rev v) = rev e"
    using takeWhile_append2 [of "rev e" "\<lambda>c. c \<noteq> sep" "sep # rev v"] all by simp
  have d: "dropWhile (\<lambda>c. c \<noteq> sep) (rev e @ sep # rev v) = sep # rev v"
    using dropWhile_append2 [of "rev e" "\<lambda>c. c \<noteq> sep" "sep # rev v"] all by simp
  show ?thesis using t d by (simp add: rsplit1_def)
qed

lemma strip_Nil: "strip [] = []"
  by (simp add: strip_def)

lemma format_option_no_hyphen:
  "CHR ''-'' \<notin> set option_text \<Longrightarrow>
   format_option type option_text = Inl ''Empty value or property''"
  by (simp add: format_option_def rsplit1_no_sep strip_Nil)

lemma format_option_split:
  assumes "CHR ''-'' \<notin> set e"
  shows "format_option type (v @ CHR ''-'' # e) =
     (if strip v = [] \<or> strip e = [] then Inl ''Empty value or property''
      else if type = ''objective'' then
        (if lower (strip e) \<notin> set [''true'', ''false'']
         then Inl (''Property must be 'true' or 'false'' @ [CHR 0x27])
         else Inr (JDict [(''text'', JStr (strip v)),
                          (''isCorrect'', JBool (lower (strip e) = ''true''))]))
      else Inr (JDict [(''text'', JStr (strip v)), (''tag'', JStr (strip e))]))"
proof -
  have "rsplit1 (CHR ''-'') (v @ CHR ''-'' # e) = [v, e]"
    using assms by (rule rsplit1_last_sep)
  then show ?thesis by (simp add: format_option_def Let_def)
qed

lemma process_column_strict:
  assumes "col \<noteq> ''question''" and "\<not> is_blank (row_get cols row col NaN)"
  shows "process_column True type index cols row col options =
     (case format_option type (strip (str (row_get cols row col NaN))) of
        Inl e \<Rightarrow> Inl (invalid_option_format (index + 2) col
                         (strip (str (row_get cols row col NaN))) e)
      | Inr opt \<Rightarrow> Inr (options @ [opt]))"
  using assms by (simp add: process_column_def Let_def)

subsection \<open>The loops, piece by piece\<close>

lemma options_loop_append:
  "options_loop rf ty i cols row (xs @ ys) acc =
     (case options_loop rf ty i cols row xs acc of
        Inl r \<Rightarrow> Inl r
      | Inr acc' \<Rightarrow> options_loop rf ty i cols row ys acc')"
proof (induction xs arbitrary: acc)
  case Nil
  show ?case by simp
next
  case (Cons x xs)
  show ?case
    by (simp add: Cons.IH split: sum.split)
qed

lemma rows_loop_append:
  "rows_loop rf ty cols (xs @ ys) acc =
     (case rows_loop rf ty cols xs acc of
        Inl r \<Rightarrow> Inl r
      | Inr acc' \<Rightarrow> rows_loop rf ty cols ys acc')"
proof (induction xs arbitrary: acc)
  case Nil
  show ?case by simp
next
  case (Cons x xs)
  obtain i r where x: "x = (i, r)" by (cases x)
  show ?case
    by (simp add: x Cons.IH split: sum.split)
qed

lemma iterrows_split:
  "iterrows \<lparr>columns = cols, rows = pre @ r # post\<rparr> =
     zip [0 ..< length pre] pre @ (length pre, r) #
     zip [Suc (length pre) ..< Suc (length pre + length post)] post"
proof -
  let ?n = "length pre" and ?m = "length post"
  have 1: "[0 ..< ?n + Suc ?m] = [0 ..< ?n] @ [?n ..< ?n + Suc ?m]"
    using upt_add_eq_append [of 0 ?n "Suc ?m"] by simp
  have 2: "[?n ..< ?n + Suc ?m] = ?n # [Suc ?n ..< Suc (?n + ?m)]"
    using upt_conv_Cons [of ?n "?n + Suc ?m"] by simp
  have "zip ([0 ..< ?n] @ ?n # [Suc ?n ..< Suc (?n + ?m)]) (pre @ r # post) =
        zip [0 ..< ?n] pre @ zip (?n # [Suc ?n ..< Suc (?n + ?m)]) (r # post)"
    by (rule zip_append) simp
  then show ?thesis using 1 2 by (simp add: iterrows_def)
qed

subsection \<open>What the loops can return\<close>

lemma process_column_Inl:
  "process_column rf ty i cols row col opts = Inl r \<Longrightarrow>
   \<exists>n c t e. r = invalid_option_format n c t e"
  by (auto simp: process_column_def Let_def split: if_splits sum.splits)

lemma options_loop_Inl:
  "options_loop rf ty i cols row cs opts = Inl r \<Longrightarrow>
   \<exists>n c t e. r = invalid_option_format n c t e"
proof (induction cs arbitrary: opts)
  case Nil
  then show ?case by simp
next
  case (Cons c cs)
  show ?case
  proof (cases "process_column rf ty i cols row c opts")
    case (Inl r')
    with Cons.prems have "r' = r" by simp
    with Inl show ?thesis by (auto dest: process_column_Inl)
  next
    case (Inr opts')
    with Cons.prems have "options_loop rf ty i cols row cs opts' = Inl r" by simp
    then show ?thesis by (rule Cons.IH)
  qed
qed

lemma process_row_Inl:
  "process_row rf ty cols i row qs = Inl r \<Longrightarrow> row_error r"
  unfolding process_row_def Let_def row_error_def
  by (auto split: if_splits sum.splits dest: options_loop_Inl)

lemma rows_loop_Inl:
  "rows_loop rf ty cols rs qs = Inl r \<Longrightarrow> row_error r"
proof (induction rs arbitrary: qs)
  case Nil
  then show ?case by simp
next
  case (Cons x rs)
  obtain i row where x: "x = (i, row)" by (cases x)
  show ?case
  proof (cases "process_row rf ty cols i row qs")
    case (Inl r')
    with Cons.prems x have "r' = r" by simp
    with Inl show ?thesis by (auto dest: process_row_Inl)
  next
    case (Inr qs')
    with Cons.prems x have "rows_loop rf ty cols rs qs' = Inl r" by simp
    then show ?thesis by (rule Cons.IH)
  qed
qed

lemma rows_loop_Inl_response:
  "rows_loop rf ty cols rs qs = Inl r \<Longrightarrow> \<exists>m. r = JSONResponse 400 m"
  by (drule rows_loop_Inl)
     (auto simp: row_error_def invalid_option_format_def no_correct_answer_def
        error_processing_row_def)

lemma row_error_not_quiz_type:
  "row_error r \<Longrightarrow>
   r \<noteq> JSONResponse 400
          (JDict [(''error'', JStr ''Invalid quiz type. Must be 'objective' or 'tag'.'')])"
  by (auto simp: row_error_def invalid_option_format_def no_correct_answer_def
        error_processing_row_def)

lemma process_row_emitted:
  assumes "process_row rf ty cols i row qs = Inr qs'"
    and "\<forall>q\<in>set qs. emitted_question q"
  shows "\<forall>q\<in>set qs'. emitted_question q"
proof (cases "is_blank (row_get cols row ''question'' (Str ''''))")
  case True
  with assms show ?thesis by (simp add: process_row_def)
next
  case False
  show ?thesis
  proof (cases "options_loop rf ty i cols row cols []")
    case (Inl r)
    with False assms(1) show ?thesis by (simp add: process_row_def)
  next
    case (Inr os)
    show ?thesis
    proof (cases "os = []")
      case True
      with False Inr assms show ?thesis by (simp add: process_row_def)
    next
      case False
      let ?q = "JDict [(''question'', JStr (strip (str (row_get cols row ''question'' (Str ''''))))),
                       (''options'', JList os)]"
      from False have q: "emitted_question ?q" by (simp add: emitted_question_def)
      from \<open>\<not> is_blank _\<close> Inr False assms(1) have "qs' = qs @ [?q]"
        by (auto simp: process_row_def Let_def split: if_splits sum.splits)
      with q assms(2) show ?thesis by simp
    qed
  qed
qed

lemma rows_loop_emitted:
  "rows_loop rf ty cols rs qs = Inr qs' \<Longrightarrow> \<forall>q\<in>set qs. emitted_question q \<Longrightarrow>
   \<forall>q\<in>set qs'. emitted_question q"
proof (induction rs arbitrary: qs)
  case Nil
  then show ?case by simp
next
  case (Cons x rs)
  obtain i row where x: "x = (i, row)" by (cases x)
  show ?case
  proof (cases "process_row rf ty cols i row qs")
    case (Inl r)
    with Cons.prems(1) x show ?thesis by simp
  next
    case (Inr qs1)
    from process_row_emitted [OF Inr Cons.prems(2)]
    have 1: "\<forall>q\<in>set qs1. emitted_question q" .
    from Inr Cons.prems(1) x have "rows_loop rf ty cols rs qs1 = Inr qs'" by simp
    from Cons.IH [OF this 1] show ?thesis .
  qed
qed

lemma parse_quiz_excel_Return:
  assumes "parse_quiz_excel ct ty rf x = Return d"
  shows "\<exists>df qs. x = Inr df \<and> rows_loop rf ty (columns df) (iterrows df) [] = Inr qs \<and> qs \<noteq> []
           \<and> d = JDict [(''questions'', JList qs), (''count'', JInt (int (length qs)))]"
proof (cases x)
  case (Inl e)
  with assms show ?thesis by (simp add: parse_quiz_excel_def split: if_splits)
next
  case (Inr df)
  show ?thesis
  proof (cases "rows_loop rf ty (columns df) (iterrows df) []")
    case (Inl r)
    from rows_loop_Inl_response [OF Inl] obtain m where "r = JSONResponse 400 m" by blast
    with Inl Inr assms show ?thesis by (simp add: parse_quiz_excel_def split: if_splits)
  next
    case (Inr qs)
    with \<open>x = Inr df\<close> assms show ?thesis
      by (simp add: parse_quiz_excel_def split: if_splits)
  qed
qed

subsection \<open>The row that is reached\<close>

lemma row_get_absent: "col \<notin> set cols \<Longrightarrow> row_get cols row col dflt = dflt"
proof -
  assume "col \<notin> set cols"
  then have "col \<notin> fst ` set (zip cols row)"
    by (auto dest: set_zip_leftD)
  then have "map_of (zip cols row) col = None"
    by (simp add: map_of_eq_None_iff)
  then show ?thesis by (simp add: row_get_def)
qed

lemma question_column_present:
  "\<not> is_blank (row_get cols row ''question'' (Str '''')) \<Longrightarrow> ''question'' \<in> set cols"
proof (rule ccontr)
  assume nb: "\<not> is_blank (row_get cols row ''question'' (Str ''''))"
    and "''question'' \<notin> set cols"
  then have "row_get cols row ''question'' (Str '''') = Str ''''"
    by (simp add: row_get_absent)
  with nb show False by (simp add: is_blank_def strip_Nil)
qed

text \<open>
  When the rows before a row return no response, the endpoint answers with what that row
  returns, if it returns a response.
\<close>

lemma parse_quiz_excel_row_response:
  assumes "content_type \<in> set allowed_types"
    and "type = ''objective'' \<or> type = ''tag-based''"
    and "''question'' \<in> set cols"
    and "rows_loop rf type cols (zip [0 ..< length pre] pre) [] = Inr questions"
    and "process_row rf type cols (length pre) row questions = Inl r"
  shows "parse_quiz_excel content_type type rf (Inr \<lparr>columns = cols, rows = pre @ row # post\<rparr>) = r"
proof -
  have "rows_loop rf type cols (iterrows \<lparr>columns = cols, rows = pre @ row # post\<rparr>) [] = Inl r"
    using assms(4,5) by (simp add: iterrows_split rows_loop_append)
  with assms(1,2,3) show ?thesis
    by (auto simp: parse_quiz_excel_def)
qed

subsection \<open>Options of an objective quiz\<close>

lemma format_option_objective:
  "format_option ''objective'' t = Inr opt \<Longrightarrow> objective_option opt"
  by (auto simp: format_option_def Let_def objective_option_def split: if_splits)

lemma process_column_objective:
  assumes "process_column True ''objective'' i cols row col opts = Inr opts'"
    and "\<forall>opt\<in>set opts. objective_option opt"
  shows "\<forall>opt\<in>set opts'. objective_option opt"
  using assms
  by (auto simp: process_column_def Let_def split: if_splits sum.splits
        dest: format_option_objective)

lemma options_loop_objective:
  "options_loop True ''objective'' i cols row cs opts = Inr opts' \<Longrightarrow>
   \<forall>opt\<in>set opts. objective_option opt \<Longrightarrow> \<forall>opt\<in>set opts'. objective_option opt"
proof (induction cs arbitrary: opts)
  case Nil
  then show ?case by simp
next
  case (Cons c cs)
  show ?case
  proof (cases "process_column True ''objective'' i cols row c opts")
    case (Inl r)
    with Cons.prems(1) show ?thesis by simp
  next
    case (Inr opts1)
    from process_column_objective [OF Inr Cons.prems(2)]
    have 1: "\<forall>opt\<in>set opts1. objective_option opt" .
    from Inr Cons.prems(1)
    have "options_loop True ''objective'' i cols row cs opts1 = Inr opts'" by simp
    from Cons.IH [OF this 1] show ?thesis .
  qed
qed

lemma any_isCorrect_objective:
  "\<forall>opt\<in>set opts. objective_option opt \<Longrightarrow>
   any_isCorrect opts =
     Inr (\<exists>v. JDict [(''text'', JStr v), (''isCorrect'', JBool True)] \<in> set opts)"
proof (induction opts)
  case Nil
  show ?case by simp
next
  case (Cons opt opts)
  from Cons.prems obtain v b where
    opt: "opt = JDict [(''text'', JStr v), (''isCorrect'', JBool b)]"
    by (auto simp: objective_option_def)
  from Cons.prems have "\<forall>opt\<in>set opts. objective_option opt" by simp
  from Cons.IH [OF this] opt show ?case by (cases b) auto
qed

subsection \<open>The lenient path\<close>

lemma options_loop_lenient:
  "options_loop False ''objective'' i cols row cs opts =
     Inr (opts @ lenient_objective_options cols row cs)"
proof (induction cs arbitrary: opts)
  case Nil
  show ?case by (simp add: lenient_objective_options_def)
next
  case (Cons c cs)
  show ?case
    by (simp add: Cons.IH process_column_def lenient_objective_options_def Let_def)
qed

lemma process_row_lenient:
  "process_row False ''objective'' cols i row qs =
     Inr (qs @ lenient_objective_question cols row)"
  by (simp add: process_row_def options_loop_lenient lenient_objective_question_def Let_def)

lemma rows_loop_lenient:
  "rows_loop False ''objective'' cols rs qs =
     Inr (qs @ concat (map (\<lambda>x. lenient_objective_question cols (snd x)) rs))"
proof (induction rs arbitrary: qs)
  case Nil
  show ?case by simp
next
  case (Cons x rs)
  obtain i row where x: "x = (i, row)" by (cases x)
  show ?case by (simp add: x process_row_lenient Cons.IH)
qed

lemma iterrows_rows:
  "map (\<lambda>x. f (snd x)) (iterrows df) = map f (rows df)"
proof -
  have "map snd (iterrows df) = rows df"
    by (simp add: iterrows_def)
  then have "map f (map snd (iterrows df)) = map f (rows df)" by simp
  then show ?thesis by (simp add: comp_def)
qed

subsection \<open>The claims\<close>

text \<open>
  C1. The sheet with the columns \<^verbatim>\<open>question\<close> and \<^verbatim>\<open>opt1\<close> and the single row
  \<^verbatim>\<open>["What is 2+2?", "4-true"]\<close>, parsed as an objective quiz with the option format
  required, is answered with one question and the count 1. The dictionary of the question
  holds its text under the key \<^verbatim>\<open>question\<close> (line 142), for both content types that are
  accepted.
\<close>

theorem C1_round_trip:
  "parse_quiz_excel ''application/vnd.openxmlformats-officedocument.spreadsheetml.sheet''
     ''objective'' True
     (Inr \<lparr>columns = [''question'', ''opt1''],
           rows = [[Str ''What is 2+2?'', Str ''4-true'']]\<rparr>)
   = Return (JDict
       [(''questions'', JList
          [JDict [(''question'', JStr ''What is 2+2?''),
                  (''options'', JList
                     [JDict [(''text'', JStr ''4''), (''isCorrect'', JBool True)]])]]),
        (''count'', JInt 1)])
   \<and>
   parse_quiz_excel ''application/vnd.ms-excel'' ''objective'' True
     (Inr \<lparr>columns = [''question'', ''opt1''],
           rows = [[Str ''What is 2+2?'', Str ''4-true'']]\<rparr>)
   = Return (JDict
       [(''questions'', JList
          [JDict [(''question'', JStr ''What is 2+2?''),
                  (''options'', JList
                     [JDict [(''text'', JStr ''4''), (''isCorrect'', JBool True)]])]]),
        (''count'', JInt 1)])"
  by code_simp

text \<open>
  The answer is not the one with the question's text under the key \<^verbatim>\<open>text\<close>.
\<close>

theorem C1_text_key_counterexample:
  "parse_quiz_excel ''application/vnd.ms-excel'' ''objective'' True
     (Inr \<lparr>columns = [''question'', ''opt1''],
           rows = [[Str ''What is 2+2?'', Str ''4-true'']]\<rparr>)
   \<noteq> Return (JDict
       [(''questions'', JList
          [JDict [(''text'', JStr ''What is 2+2?''),
                  (''options'', JList
                     [JDict [(''text'', JStr ''4''), (''isCorrect'', JBool True)]])]]),
        (''count'', JInt 1)])"
  by code_simp

text \<open>
  C4. With the option format required and the quiz type \<^verbatim>\<open>tag-based\<close>, a cell whose
  trimmed text is \<open>v-e\<close>, where \<open>e\<close> has no hyphen (so the hyphen between them is the
  last one, and \<open>v\<close> may have hyphens of its own) and both parts are not blank, appends
  the option with the trimmed \<open>v\<close> as text and the trimmed \<open>e\<close> as tag.
\<close>

theorem C4_split_at_last_hyphen:
  assumes "col \<noteq> ''question''"
    and "\<not> is_blank (row_get cols row col NaN)"
    and "strip (str (row_get cols row col NaN)) = v @ ''-'' @ e"
    and "CHR ''-'' \<notin> set e"
    and "strip v \<noteq> []" and "strip e \<noteq> []"
  shows "process_column True ''tag-based'' index cols row col options =
           Inr (options @ [JDict [(''text'', JStr (strip v)), (''tag'', JStr (strip e))]])"
  using assms
  by (simp add: process_column_strict format_option_split)

theorem C4_urgent_math_tag_witness:
  "''opt1'' \<noteq> ''question''
   \<and> \<not> is_blank (row_get [''question'', ''opt1''] [Str ''Q'', Str ''urgent-math-tag''] ''opt1'' NaN)
   \<and> strip (str (row_get [''question'', ''opt1''] [Str ''Q'', Str ''urgent-math-tag''] ''opt1'' NaN))
       = ''urgent-math'' @ ''-'' @ ''tag''
   \<and> CHR ''-'' \<notin> set ''tag''
   \<and> strip ''urgent-math'' \<noteq> [] \<and> strip ''tag'' \<noteq> []
   \<and> process_column True ''tag-based'' 0 [''question'', ''opt1'']
         [Str ''Q'', Str ''urgent-math-tag''] ''opt1'' []
       = Inr [JDict [(''text'', JStr ''urgent-math''), (''tag'', JStr ''tag'')]]"
proof -
  let ?cols = "[''question'', ''opt1'']" and ?row = "[Str ''Q'', Str ''urgent-math-tag'']"
  have h1: "''opt1'' \<noteq> ''question''" by simp
  have h2: "\<not> is_blank (row_get ?cols ?row ''opt1'' NaN)" by code_simp
  have h3: "strip (str (row_get ?cols ?row ''opt1'' NaN)) = ''urgent-math'' @ ''-'' @ ''tag''"
    by code_simp
  have h4: "CHR ''-'' \<notin> set ''tag''" by simp
  have h5: "strip ''urgent-math'' \<noteq> []" by code_simp
  have h6: "strip ''tag'' \<noteq> []" by code_simp
  have s1: "strip ''urgent-math'' = ''urgent-math''" by code_simp
  have s2: "strip ''tag'' = ''tag''" by code_simp
  from C4_split_at_last_hyphen [OF h1 h2 h3 h4 h5 h6, of 0 "[]"]
  have "process_column True ''tag-based'' 0 ?cols ?row ''opt1'' []
          = Inr [JDict [(''text'', JStr ''urgent-math''), (''tag'', JStr ''tag'')]]"
    by (simp only: s1 s2 append_Nil)
  with h1 h2 h3 h4 h5 h6 show ?thesis by blast
qed

text \<open>
  C3. Whenever the endpoint returns its dictionary, the count is the number of questions
  in it, and every question is a dictionary with its text and a list of options that is
  not empty.
\<close>

theorem C3_count_and_options:
  assumes "parse_quiz_excel content_type type require_option_format read_excel = Return d"
  shows "\<exists>questions. d = JDict [(''questions'', JList questions),
                               (''count'', JInt (int (length questions)))]
           \<and> (\<forall>q\<in>set questions. \<exists>t options.
                 q = JDict [(''question'', JStr t), (''options'', JList options)]
                 \<and> options \<noteq> [])"
proof -
  from parse_quiz_excel_Return [OF assms] obtain df qs where
    l: "rows_loop require_option_format type (columns df) (iterrows df) [] = Inr qs" and
    d: "d = JDict [(''questions'', JList qs), (''count'', JInt (int (length qs)))]"
    by blast
  from rows_loop_emitted [OF l] have "\<forall>q\<in>set qs. emitted_question q" by simp
  with d show ?thesis unfolding emitted_question_def by blast
qed

theorem C3_three_rows_witness:
  "parse_quiz_excel ''application/vnd.ms-excel'' ''tag-based'' False
     (Inr \<lparr>columns = [''question'', ''a'', ''b''],
           rows = [[Str ''Q1'', Str ''x'', NaN], [Str ''Q2'', NaN, NaN],
                   [Str ''Q3'', Str ''y'', Str ''z'']]\<rparr>)
   = Return (JDict
       [(''questions'', JList
          [JDict [(''question'', JStr ''Q1''),
                  (''options'', JList [JDict [(''text'', JStr ''x''), (''tag'', JStr ''a'')]])],
           JDict [(''question'', JStr ''Q3''),
                  (''options'', JList [JDict [(''text'', JStr ''y''), (''tag'', JStr ''a'')],
                                       JDict [(''text'', JStr ''z''), (''tag'', JStr ''b'')]])]]),
        (''count'', JInt 2)])
   \<and> (\<exists>questions.
         JDict
          [(''questions'', JList
             [JDict [(''question'', JStr ''Q1''),
                     (''options'', JList [JDict [(''text'', JStr ''x''), (''tag'', JStr ''a'')]])],
              JDict [(''question'', JStr ''Q3''),
                     (''options'', JList [JDict [(''text'', JStr ''y''), (''tag'', JStr ''a'')],
                                          JDict [(''text'', JStr ''z''), (''tag'', JStr ''b'')]])]]),
           (''count'', JInt 2)]
         = JDict [(''questions'', JList questions),
                  (''count'', JInt (int (length questions)))]
         \<and> (\<forall>q\<in>set questions. \<exists>t options.
               q = JDict [(''question'', JStr t), (''options'', JList options)]
               \<and> options \<noteq> []))"
proof -
  have h: "parse_quiz_excel ''application/vnd.ms-excel'' ''tag-based'' False
     (Inr \<lparr>columns = [''question'', ''a'', ''b''],
           rows = [[Str ''Q1'', Str ''x'', NaN], [Str ''Q2'', NaN, NaN],
                   [Str ''Q3'', Str ''y'', Str ''z'']]\<rparr>)
   = Return (JDict
       [(''questions'', JList
          [JDict [(''question'', JStr ''Q1''),
                  (''options'', JList [JDict [(''text'', JStr ''x''), (''tag'', JStr ''a'')]])],
           JDict [(''question'', JStr ''Q3''),
                  (''options'', JList [JDict [(''text'', JStr ''y''), (''tag'', JStr ''a'')],
                                       JDict [(''text'', JStr ''z''), (''tag'', JStr ''b'')]])]]),
        (''count'', JInt 2)])"
    by code_simp
  from h C3_count_and_options [OF h] show ?thesis by (rule conjI)
qed

text \<open>
  C7. A row whose \<^verbatim>\<open>question\<close> cell is missing, empty or white space only leaves the
  questions as they were and returns no response, whatever its other cells hold; the
  loop over the rows gives what it gives without that row, the other rows keeping their
  indices.
\<close>

theorem C7_blank_question_skipped:
  assumes "is_blank (row_get cols row ''question'' (Str ''''))"
  shows "process_row require_option_format type cols index row questions = Inr questions
         \<and> rows_loop require_option_format type cols (pre @ (index, row) # post) questions =
           rows_loop require_option_format type cols (pre @ post) questions"
proof -
  from assms have 1: "\<And>qs. process_row require_option_format type cols index row qs = Inr qs"
    by (simp add: process_row_def)
  then show ?thesis by (simp add: rows_loop_append split: sum.split)
qed

theorem C7_blank_question_witness:
  "is_blank (row_get [''question'', ''opt1''] [Str ''  '', Str ''4-true''] ''question'' (Str ''''))
   \<and> process_row True ''objective'' [''question'', ''opt1''] 0 [Str ''  '', Str ''4-true''] []
       = Inr []
   \<and> rows_loop True ''objective'' [''question'', ''opt1'']
         [(0, [Str ''  '', Str ''4-true'']), (1, [Str ''What is 2+2?'', Str ''4-true''])] []
       = Inr [JDict [(''question'', JStr ''What is 2+2?''),
                     (''options'', JList
                        [JDict [(''text'', JStr ''4''), (''isCorrect'', JBool True)]])]]
   \<and> is_blank (row_get [''question'', ''opt1''] [NaN, Str ''4-true''] ''question'' (Str ''''))
   \<and> process_row True ''objective'' [''question'', ''opt1''] 0 [NaN, Str ''4-true''] []
       = Inr []
   \<and> is_blank (row_get [''question'', ''opt1''] [Str '''', Str ''plainoption''] ''question''
         (Str ''''))
   \<and> process_row True ''objective'' [''question'', ''opt1''] 2 [Str '''', Str ''plainoption'']
         [JDict [(''question'', JStr ''What is 2+2?''),
                 (''options'', JList
                    [JDict [(''text'', JStr ''4''), (''isCorrect'', JBool True)]])]]
       = Inr [JDict [(''question'', JStr ''What is 2+2?''),
                     (''options'', JList
                        [JDict [(''text'', JStr ''4''), (''isCorrect'', JBool True)]])]]
   \<and> parse_quiz_excel ''application/vnd.ms-excel'' ''objective'' True
         (Inr \<lparr>columns = [''question'', ''opt1''],
               rows = [[NaN, Str ''4-true''], [Str ''What is 2+2?'', Str ''4-true''],
                       [Str '''', Str ''plainoption'']]\<rparr>)
       = Return (JDict
           [(''questions'', JList
              [JDict [(''question'', JStr ''What is 2+2?''),
                      (''options'', JList
                         [JDict [(''text'', JStr ''4''), (''isCorrect'', JBool True)]])]]),
            (''count'', JInt 1)])"
proof -
  let ?cols = "[''question'', ''opt1'']"
  let ?q = "JDict [(''question'', JStr ''What is 2+2?''),
                   (''options'', JList
                      [JDict [(''text'', JStr ''4''), (''isCorrect'', JBool True)]])]"
  have h: "is_blank (row_get ?cols [Str ''  '', Str ''4-true''] ''question'' (Str ''''))"
    by code_simp
  have r: "rows_loop True ''objective'' ?cols [(1, [Str ''What is 2+2?'', Str ''4-true''])] []
       = Inr [?q]"
    by code_simp
  from C7_blank_question_skipped [OF h, of True "''objective''" 0 "[]" "[]"
      "[(1, [Str ''What is 2+2?'', Str ''4-true''])]"] r
  have space: "process_row True ''objective'' ?cols 0 [Str ''  '', Str ''4-true''] [] = Inr []
     \<and> rows_loop True ''objective'' ?cols
         [(0, [Str ''  '', Str ''4-true'']), (1, [Str ''What is 2+2?'', Str ''4-true''])] []
       = Inr [?q]"
    by (simp only: append_Nil simp_thms)
  have n: "is_blank (row_get ?cols [NaN, Str ''4-true''] ''question'' (Str ''''))"
    by code_simp
  from C7_blank_question_skipped [OF n, of True "''objective''" 0 "[]" "[]" "[]"]
  have missing: "process_row True ''objective'' ?cols 0 [NaN, Str ''4-true''] [] = Inr []"
    by (rule conjunct1)
  have e: "is_blank (row_get ?cols [Str '''', Str ''plainoption''] ''question'' (Str ''''))"
    by code_simp
  from C7_blank_question_skipped [OF e, of True "''objective''" 2 "[?q]" "[]" "[]"]
  have empty: "process_row True ''objective'' ?cols 2 [Str '''', Str ''plainoption''] [?q]
                 = Inr [?q]"
    by (rule conjunct1)
  have whole: "parse_quiz_excel ''application/vnd.ms-excel'' ''objective'' True
         (Inr \<lparr>columns = ?cols,
               rows = [[NaN, Str ''4-true''], [Str ''What is 2+2?'', Str ''4-true''],
                       [Str '''', Str ''plainoption'']]\<rparr>)
       = Return (JDict [(''questions'', JList [?q]), (''count'', JInt 1)])"
    by code_simp
  from h space n missing e empty whole show ?thesis by blast
qed

text \<open>
  C8. With an accepted content type and quiz type, a data frame that has no column
  \<^verbatim>\<open>question\<close> is answered with the message about the missing column, whatever its
  rows hold. The test comes after the file has been read: when reading fails, the answer
  is the reading error.
\<close>

theorem C8_missing_question_column:
  assumes "content_type \<in> set allowed_types"
    and "type = ''objective'' \<or> type = ''tag-based''"
    and "''question'' \<notin> set (columns df)"
  shows "parse_quiz_excel content_type type require_option_format (Inr df) =
           JSONResponse 400
             (JDict [(''error'', JStr ''Excel file must contain a 'question' column.'')])
         \<and> parse_quiz_excel content_type type require_option_format (Inl e) =
           JSONResponse 400 (JDict [(''error'', JStr (''Error reading Excel file: '' @ e))])"
  using assms by (auto simp: parse_quiz_excel_def)

theorem C8_missing_question_column_witness:
  "''application/vnd.ms-excel'' \<in> set allowed_types
   \<and> (''objective'' = ''objective'' \<or> ''objective'' = ''tag-based'')
   \<and> ''question'' \<notin> set (columns \<lparr>columns = [''Question'', ''opt1''],
                                       rows = [[Str ''What is 2+2?'', Str ''plainoption'']]\<rparr>)
   \<and> parse_quiz_excel ''application/vnd.ms-excel'' ''objective'' True
         (Inr \<lparr>columns = [''Question'', ''opt1''],
               rows = [[Str ''What is 2+2?'', Str ''plainoption'']]\<rparr>) =
       JSONResponse 400
         (JDict [(''error'', JStr ''Excel file must contain a 'question' column.'')])
   \<and> parse_quiz_excel ''application/vnd.ms-excel'' ''objective'' True (Inl ''bad file'') =
       JSONResponse 400 (JDict [(''error'', JStr ''Error reading Excel file: bad file'')])"
proof -
  have h1: "''application/vnd.ms-excel'' \<in> set allowed_types"
    by (simp add: allowed_types_def)
  have h2: "''objective'' = ''objective'' \<or> ''objective'' = ''tag-based''" by simp
  have h3: "''question'' \<notin> set (columns \<lparr>columns = [''Question'', ''opt1''],
                  rows = [[Str ''What is 2+2?'', Str ''plainoption'']]\<rparr>)" by simp
  from C8_missing_question_column [OF h1 h2 h3, of True "''bad file''"] h1 h2 h3
  show ?thesis by simp
qed

text \<open>
  C9. With an accepted content type, a quiz type other than \<^verbatim>\<open>objective\<close> and
  \<^verbatim>\<open>tag-based\<close> is answered with the message that names \<^verbatim>\<open>'objective' or 'tag'\<close>;
  the quiz type \<^verbatim>\<open>tag-based\<close> is never answered with that message.
\<close>

theorem C9_invalid_quiz_type:
  assumes "content_type \<in> set allowed_types"
    and "type \<noteq> ''objective''" and "type \<noteq> ''tag-based''"
  shows "parse_quiz_excel content_type type require_option_format read_excel =
           JSONResponse 400
             (JDict [(''error'', JStr ''Invalid quiz type. Must be 'objective' or 'tag'.'')])
         \<and> parse_quiz_excel content_type ''tag-based'' require_option_format read_excel \<noteq>
           JSONResponse 400
             (JDict [(''error'', JStr ''Invalid quiz type. Must be 'objective' or 'tag'.'')])"
proof
  show "parse_quiz_excel content_type type require_option_format read_excel =
          JSONResponse 400
            (JDict [(''error'', JStr ''Invalid quiz type. Must be 'objective' or 'tag'.'')])"
    using assms by (simp add: parse_quiz_excel_def)
next
  show "parse_quiz_excel content_type ''tag-based'' require_option_format read_excel \<noteq>
          JSONResponse 400
            (JDict [(''error'', JStr ''Invalid quiz type. Must be 'objective' or 'tag'.'')])"
  proof (cases read_excel)
    case (Inl e)
    with assms(1) show ?thesis by (simp add: parse_quiz_excel_def)
  next
    case (Inr df)
    show ?thesis
    proof (cases "rows_loop require_option_format ''tag-based'' (columns df) (iterrows df) []")
      case (Inl r)
      from rows_loop_Inl [OF Inl] have "row_error r" .
      from row_error_not_quiz_type [OF this] Inl Inr assms(1) show ?thesis
        by (simp add: parse_quiz_excel_def)
    next
      case (Inr qs)
      with \<open>read_excel = Inr df\<close> assms(1) show ?thesis
        by (simp add: parse_quiz_excel_def)
    qed
  qed
qed

theorem C9_invalid_quiz_type_witness:
  "''application/vnd.ms-excel'' \<in> set allowed_types
   \<and> ''tag'' \<noteq> ''objective'' \<and> ''tag'' \<noteq> ''tag-based''
   \<and> parse_quiz_excel ''application/vnd.ms-excel'' ''tag'' True
         (Inr \<lparr>columns = [''question'', ''opt1''],
               rows = [[Str ''What is 2+2?'', Str ''4-true'']]\<rparr>) =
       JSONResponse 400
         (JDict [(''error'', JStr ''Invalid quiz type. Must be 'objective' or 'tag'.'')])
   \<and> parse_quiz_excel ''application/vnd.ms-excel'' ''tag-based'' True
         (Inr \<lparr>columns = [''question'', ''opt1''],
               rows = [[Str ''What is 2+2?'', Str ''4-true'']]\<rparr>) \<noteq>
       JSONResponse 400
         (JDict [(''error'', JStr ''Invalid quiz type. Must be 'objective' or 'tag'.'')])
   \<and> parse_quiz_excel ''application/vnd.ms-excel'' ''tag-based'' True
         (Inr \<lparr>columns = [''question'', ''opt1''],
               rows = [[Str ''What is 2+2?'', Str ''4-true'']]\<rparr>) =
       Return (JDict
         [(''questions'', JList
            [JDict [(''question'', JStr ''What is 2+2?''),
                    (''options'', JList
                       [JDict [(''text'', JStr ''4''), (''tag'', JStr ''true'')]])]]),
          (''count'', JInt 1)])
   \<and> ''Objective'' \<noteq> ''objective'' \<and> ''Objective'' \<noteq> ''tag-based''
   \<and> parse_quiz_excel ''application/vnd.ms-excel'' ''Objective'' True
         (Inr \<lparr>columns = [''question'', ''opt1''],
               rows = [[Str ''What is 2+2?'', Str ''4-true'']]\<rparr>) =
       JSONResponse 400
         (JDict [(''error'', JStr ''Invalid quiz type. Must be 'objective' or 'tag'.'')])"
proof -
  let ?df = "\<lparr>columns = [''question'', ''opt1''],
               rows = [[Str ''What is 2+2?'', Str ''4-true'']]\<rparr>"
  have h1: "''application/vnd.ms-excel'' \<in> set allowed_types"
    by (simp add: allowed_types_def)
  have h2: "''tag'' \<noteq> ''objective''" by simp
  have h3: "''tag'' \<noteq> ''tag-based''" by simp
  have k2: "''Objective'' \<noteq> ''objective''" by simp
  have k3: "''Objective'' \<noteq> ''tag-based''" by simp
  have accepted: "parse_quiz_excel ''application/vnd.ms-excel'' ''tag-based'' True (Inr ?df) =
       Return (JDict
         [(''questions'', JList
            [JDict [(''question'', JStr ''What is 2+2?''),
                    (''options'', JList
                       [JDict [(''text'', JStr ''4''), (''tag'', JStr ''true'')]])]]),
          (''count'', JInt 1)])"
    by code_simp
  from C9_invalid_quiz_type [OF h1 h2 h3, of True "Inr ?df"]
       C9_invalid_quiz_type [OF h1 k2 k3, of True "Inr ?df"] h1 h2 h3 k2 k3 accepted
  show ?thesis by blast
qed

text \<open>
  C2. An objective quiz with the option format required; the content type is accepted.
  The rows before a row return no response; the row has a question cell that is not
  blank, all its option cells are well formed, it has at least one option, and none of
  its options is correct. Then the endpoint answers with the message that names the row
  by its index plus 2, whatever the rows after it hold, and returns no questions.
\<close>

theorem C2_no_correct_answer:
  assumes "content_type \<in> set allowed_types"
    and "rows_loop True ''objective'' cols (zip [0 ..< length pre] pre) [] = Inr questions"
    and "\<not> is_blank (row_get cols row ''question'' (Str ''''))"
    and "options_loop True ''objective'' (length pre) cols row cols [] = Inr options"
    and "options \<noteq> []"
    and "\<forall>v. JDict [(''text'', JStr v), (''isCorrect'', JBool True)] \<notin> set options"
  shows "parse_quiz_excel content_type ''objective'' True
           (Inr \<lparr>columns = cols, rows = pre @ row # post\<rparr>) =
         JSONResponse 400 (JDict [(''error'', JStr
           (''Objective question in row '' @ str_nat (length pre + 2)
            @ '' must have at least one correct answer.''))])"
proof -
  from options_loop_objective [OF assms(4)]
  have "\<forall>opt\<in>set options. objective_option opt" by simp
  from any_isCorrect_objective [OF this] assms(6)
  have "any_isCorrect options = Inr False" by simp
  with assms(3,4,5)
  have "process_row True ''objective'' cols (length pre) row questions =
          Inl (no_correct_answer (length pre + 2))"
    by (simp add: process_row_def)
  from parse_quiz_excel_row_response
         [OF assms(1) disjI1 [OF refl] question_column_present [OF assms(3)] assms(2) this]
  show ?thesis by (simp add: no_correct_answer_def)
qed

theorem C2_all_false_witness:
  "''application/vnd.ms-excel'' \<in> set allowed_types
   \<and> rows_loop True ''objective'' [''question'', ''a'', ''b'']
         (zip [0 ..< length [[Str ''Q1'', Str ''1-true'', NaN]]] [[Str ''Q1'', Str ''1-true'', NaN]]) []
       = Inr [JDict [(''question'', JStr ''Q1''),
                     (''options'', JList
                        [JDict [(''text'', JStr ''1''), (''isCorrect'', JBool True)]])]]
   \<and> \<not> is_blank (row_get [''question'', ''a'', ''b'']
                      [Str ''What is 2+2?'', Str ''4-false'', Str ''5-false''] ''question'' (Str ''''))
   \<and> options_loop True ''objective'' (length [[Str ''Q1'', Str ''1-true'', NaN]])
         [''question'', ''a'', ''b''] [Str ''What is 2+2?'', Str ''4-false'', Str ''5-false'']
         [''question'', ''a'', ''b''] []
       = Inr [JDict [(''text'', JStr ''4''), (''isCorrect'', JBool False)],
              JDict [(''text'', JStr ''5''), (''isCorrect'', JBool False)]]
   \<and> parse_quiz_excel ''application/vnd.ms-excel'' ''objective'' True
         (Inr \<lparr>columns = [''question'', ''a'', ''b''],
               rows = [[Str ''Q1'', Str ''1-true'', NaN],
                       [Str ''What is 2+2?'', Str ''4-false'', Str ''5-false''],
                       [Str ''Q3'', Str ''plainoption'', NaN]]\<rparr>)
       = JSONResponse 400 (JDict [(''error'', JStr
           ''Objective question in row 3 must have at least one correct answer.'')])"
proof -
  let ?cols = "[''question'', ''a'', ''b'']"
  let ?pre = "[[Str ''Q1'', Str ''1-true'', NaN]]"
  let ?row = "[Str ''What is 2+2?'', Str ''4-false'', Str ''5-false'']"
  let ?post = "[[Str ''Q3'', Str ''plainoption'', NaN]]"
  let ?options = "[JDict [(''text'', JStr ''4''), (''isCorrect'', JBool False)],
                   JDict [(''text'', JStr ''5''), (''isCorrect'', JBool False)]]"
  have h1: "''application/vnd.ms-excel'' \<in> set allowed_types"
    by (simp add: allowed_types_def)
  have h2: "rows_loop True ''objective'' ?cols (zip [0 ..< length ?pre] ?pre) []
       = Inr [JDict [(''question'', JStr ''Q1''),
                     (''options'', JList
                        [JDict [(''text'', JStr ''1''), (''isCorrect'', JBool True)]])]]"
    by code_simp
  have h3: "\<not> is_blank (row_get ?cols ?row ''question'' (Str ''''))" by code_simp
  have h4: "options_loop True ''objective'' (length ?pre) ?cols ?row ?cols [] = Inr ?options"
    by code_simp
  have h5: "?options \<noteq> []" by simp
  have h6: "\<forall>v. JDict [(''text'', JStr v), (''isCorrect'', JBool True)] \<notin> set ?options"
    by simp
  have n: "str_nat (length ?pre + 2) = ''3''" by code_simp
  from C2_no_correct_answer [OF h1 h2 h3 h4 h5 h6, of ?post]
  have "parse_quiz_excel ''application/vnd.ms-excel'' ''objective'' True
         (Inr \<lparr>columns = ?cols, rows = ?pre @ ?row # ?post\<rparr>)
       = JSONResponse 400 (JDict [(''error'', JStr
           ''Objective question in row 3 must have at least one correct answer.'')])"
    by (simp only: n) simp
  then have "parse_quiz_excel ''application/vnd.ms-excel'' ''objective'' True
         (Inr \<lparr>columns = ?cols,
               rows = [[Str ''Q1'', Str ''1-true'', NaN], ?row,
                       [Str ''Q3'', Str ''plainoption'', NaN]]\<rparr>)
       = JSONResponse 400 (JDict [(''error'', JStr
           ''Objective question in row 3 must have at least one correct answer.'')])"
    by simp
  with h1 h2 h3 h4 show ?thesis by blast
qed

text \<open>
  C5. The option format is required; the content type and the quiz type are accepted.
  The rows before a row return no response; the row has a question cell that is not
  blank; the columns before a column return no response in that row; the column is not
  \<^verbatim>\<open>question\<close> and its cell is not blank and has no hyphen in its trimmed text. Then the
  endpoint answers with the message that names the row by its index plus 2, the column
  and the trimmed text of the cell, with the error \<^verbatim>\<open>Empty value or property\<close>, whatever
  the columns and the rows after them hold, and returns no questions.
\<close>

theorem C5_no_hyphen:
  assumes "content_type \<in> set allowed_types"
    and "type = ''objective'' \<or> type = ''tag-based''"
    and "rows_loop True type (before @ col # after) (zip [0 ..< length pre] pre) [] = Inr questions"
    and "\<not> is_blank (row_get (before @ col # after) row ''question'' (Str ''''))"
    and "options_loop True type (length pre) (before @ col # after) row before [] = Inr options"
    and "col \<noteq> ''question''"
    and "\<not> is_blank (row_get (before @ col # after) row col NaN)"
    and "CHR ''-'' \<notin> set (strip (str (row_get (before @ col # after) row col NaN)))"
  shows "parse_quiz_excel content_type type True
           (Inr \<lparr>columns = before @ col # after, rows = pre @ row # post\<rparr>) =
         JSONResponse 400 (JDict [(''error'', JStr
           (''Invalid option format in row '' @ str_nat (length pre + 2) @ '', column ''
            @ [CHR 0x27] @ col @ [CHR 0x27] @ '': '' @ [CHR 0x27]
            @ strip (str (row_get (before @ col # after) row col NaN)) @ [CHR 0x27]
            @ ''. Error: Empty value or property''))])"
proof -
  let ?cols = "before @ col # after"
  let ?text = "strip (str (row_get ?cols row col NaN))"
  let ?r = "invalid_option_format (length pre + 2) col ?text ''Empty value or property''"
  from assms(6,7,8)
  have "process_column True type (length pre) ?cols row col options = Inl ?r"
    by (simp add: process_column_strict format_option_no_hyphen)
  with assms(5)
  have "options_loop True type (length pre) ?cols row ?cols [] = Inl ?r"
    by (simp add: options_loop_append)
  with assms(4)
  have "process_row True type ?cols (length pre) row questions = Inl ?r"
    by (simp add: process_row_def)
  from parse_quiz_excel_row_response
         [OF assms(1,2) question_column_present [OF assms(4)] assms(3) this]
  show ?thesis by (simp add: invalid_option_format_def)
qed

theorem C5_plainoption_witness:
  "''application/vnd.ms-excel'' \<in> set allowed_types
   \<and> (''tag-based'' = ''objective'' \<or> ''tag-based'' = ''tag-based'')
   \<and> rows_loop True ''tag-based'' ([''question'', ''a''] @ ''b'' # [''c''])
         (zip [0 ..< length [[Str ''Q1'', Str ''x-easy'', NaN, NaN]]]
              [[Str ''Q1'', Str ''x-easy'', NaN, NaN]]) []
       = Inr [JDict [(''question'', JStr ''Q1''),
                     (''options'', JList
                        [JDict [(''text'', JStr ''x''), (''tag'', JStr ''easy'')]])]]
   \<and> \<not> is_blank (row_get ([''question'', ''a''] @ ''b'' # [''c''])
                      [Str ''Q2'', Str ''y-hard'', Str '' plainoption '', Str ''also plain'']
                      ''question'' (Str ''''))
   \<and> options_loop True ''tag-based'' (length [[Str ''Q1'', Str ''x-easy'', NaN, NaN]])
         ([''question'', ''a''] @ ''b'' # [''c''])
         [Str ''Q2'', Str ''y-hard'', Str '' plainoption '', Str ''also plain'']
         [''question'', ''a''] []
       = Inr [JDict [(''text'', JStr ''y''), (''tag'', JStr ''hard'')]]
   \<and> ''b'' \<noteq> ''question''
   \<and> \<not> is_blank (row_get ([''question'', ''a''] @ ''b'' # [''c''])
                      [Str ''Q2'', Str ''y-hard'', Str '' plainoption '', Str ''also plain'']
                      ''b'' NaN)
   \<and> CHR ''-'' \<notin> set (strip (str (row_get ([''question'', ''a''] @ ''b'' # [''c''])
                      [Str ''Q2'', Str ''y-hard'', Str '' plainoption '', Str ''also plain'']
                      ''b'' NaN)))
   \<and> parse_quiz_excel ''application/vnd.ms-excel'' ''tag-based'' True
         (Inr \<lparr>columns = [''question'', ''a'', ''b'', ''c''],
               rows = [[Str ''Q1'', Str ''x-easy'', NaN, NaN],
                       [Str ''Q2'', Str ''y-hard'', Str '' plainoption '', Str ''also plain''],
                       [Str ''Q3'', Str ''z'', NaN, NaN]]\<rparr>)
       = JSONResponse 400 (JDict [(''error'', JStr
           (''Invalid option format in row 3, column '' @ [CHR 0x27] @ ''b'' @ [CHR 0x27]
            @ '': '' @ [CHR 0x27] @ ''plainoption'' @ [CHR 0x27]
            @ ''. Error: Empty value or property''))])"
proof -
  let ?before = "[''question'', ''a'']"
  let ?after = "[''c'']"
  let ?cols = "?before @ ''b'' # ?after"
  let ?pre = "[[Str ''Q1'', Str ''x-easy'', NaN, NaN]]"
  let ?row = "[Str ''Q2'', Str ''y-hard'', Str '' plainoption '', Str ''also plain'']"
  let ?post = "[[Str ''Q3'', Str ''z'', NaN, NaN]]"
  have h1: "''application/vnd.ms-excel'' \<in> set allowed_types"
    by (simp add: allowed_types_def)
  have h2: "''tag-based'' = ''objective'' \<or> ''tag-based'' = ''tag-based''" by simp
  have h3: "rows_loop True ''tag-based'' ?cols (zip [0 ..< length ?pre] ?pre) []
       = Inr [JDict [(''question'', JStr ''Q1''),
                     (''options'', JList
                        [JDict [(''text'', JStr ''x''), (''tag'', JStr ''easy'')]])]]"
    by code_simp
  have h4: "\<not> is_blank (row_get ?cols ?row ''question'' (Str ''''))" by code_simp
  have h5: "options_loop True ''tag-based'' (length ?pre) ?cols ?row ?before []
       = Inr [JDict [(''text'', JStr ''y''), (''tag'', JStr ''hard'')]]"
    by code_simp
  have h6: "''b'' \<noteq> ''question''" by simp
  have h7: "\<not> is_blank (row_get ?cols ?row ''b'' NaN)" by code_simp
  have h8: "CHR ''-'' \<notin> set (strip (str (row_get ?cols ?row ''b'' NaN)))" by code_simp
  have n: "str_nat (length ?pre + 2) = ''3''" by code_simp
  have t: "strip (str (row_get ?cols ?row ''b'' NaN)) = ''plainoption''" by code_simp
  from C5_no_hyphen [OF h1 h2 h3 h4 h5 h6 h7 h8, of ?post]
  have "parse_quiz_excel ''application/vnd.ms-excel'' ''tag-based'' True
         (Inr \<lparr>columns = ?cols, rows = ?pre @ ?row # ?post\<rparr>)
       = JSONResponse 400 (JDict [(''error'', JStr
           (''Invalid option format in row 3, column '' @ [CHR 0x27] @ ''b'' @ [CHR 0x27]
            @ '': '' @ [CHR 0x27] @ ''plainoption'' @ [CHR 0x27]
            @ ''. Error: Empty value or property''))])"
    by (simp only: n t) simp
  then have "parse_quiz_excel ''application/vnd.ms-excel'' ''tag-based'' True
         (Inr \<lparr>columns = [''question'', ''a'', ''b'', ''c''],
               rows = [[Str ''Q1'', Str ''x-easy'', NaN, NaN], ?row,
                       [Str ''Q3'', Str ''z'', NaN, NaN]]\<rparr>)
       = JSONResponse 400 (JDict [(''error'', JStr
           (''Invalid option format in row 3, column '' @ [CHR 0x27] @ ''b'' @ [CHR 0x27]
            @ '': '' @ [CHR 0x27] @ ''plainoption'' @ [CHR 0x27]
            @ ''. Error: Empty value or property''))])"
    by simp
  with h1 h2 h3 h4 h5 h6 h7 h8 show ?thesis by blast
qed

text \<open>
  C6. An objective quiz with no option format required. A cell that is not blank, in a
  column other than \<^verbatim>\<open>question\<close>, appends the option with the cell's trimmed text that is
  not correct. With an accepted content type and a column \<^verbatim>\<open>question\<close>, the endpoint
  answers as the lenient path of the specification says: with the questions whose
  options are all not correct, or, when no row gives a question, with the message that
  no valid question was found; the test for a correct answer returns no response.
\<close>

theorem C6_lenient_objective:
  assumes "content_type \<in> set allowed_types"
    and "''question'' \<in> set (columns df)"
  shows "(col \<noteq> ''question'' \<and> \<not> is_blank (row_get cols row col NaN) \<longrightarrow>
            process_column False ''objective'' index cols row col options =
              Inr (options @ [JDict [(''text'', JStr (strip (str (row_get cols row col NaN)))),
                                     (''isCorrect'', JBool False)]]))
         \<and> parse_quiz_excel content_type ''objective'' False (Inr df) =
             lenient_objective_spec df"
proof
  show "col \<noteq> ''question'' \<and> \<not> is_blank (row_get cols row col NaN) \<longrightarrow>
            process_column False ''objective'' index cols row col options =
              Inr (options @ [JDict [(''text'', JStr (strip (str (row_get cols row col NaN)))),
                                     (''isCorrect'', JBool False)]])"
    by (simp add: process_column_def Let_def)
next
  have "rows_loop False ''objective'' (columns df) (iterrows df) [] =
          Inr (concat (map (lenient_objective_question (columns df)) (rows df)))"
    by (simp add: rows_loop_lenient iterrows_rows)
  with assms show "parse_quiz_excel content_type ''objective'' False (Inr df) =
                     lenient_objective_spec df"
    by (simp add: parse_quiz_excel_def lenient_objective_spec_def Let_def)
qed

theorem C6_paris_witness:
  "''application/vnd.ms-excel'' \<in> set allowed_types
   \<and> ''question'' \<in> set (columns \<lparr>columns = [''question'', ''opt1'', ''opt2''],
               rows = [[Str ''Capital of France?'', Str ''Paris'', Str '' Lyon-true '']]\<rparr>)
   \<and> ''opt1'' \<noteq> ''question''
   \<and> \<not> is_blank (row_get [''question'', ''opt1'', ''opt2'']
               [Str ''Capital of France?'', Str ''Paris'', Str '' Lyon-true ''] ''opt1'' NaN)
   \<and> process_column False ''objective'' 0 [''question'', ''opt1'', ''opt2'']
            [Str ''Capital of France?'', Str ''Paris'', Str '' Lyon-true ''] ''opt1'' []
          = Inr [JDict [(''text'', JStr ''Paris''), (''isCorrect'', JBool False)]]
   \<and> parse_quiz_excel ''application/vnd.ms-excel'' ''objective'' False
         (Inr \<lparr>columns = [''question'', ''opt1'', ''opt2''],
               rows = [[Str ''Capital of France?'', Str ''Paris'', Str '' Lyon-true '']]\<rparr>)
       = Return (JDict
           [(''questions'', JList
              [JDict [(''question'', JStr ''Capital of France?''),
                      (''options'', JList
                         [JDict [(''text'', JStr ''Paris''), (''isCorrect'', JBool False)],
                          JDict [(''text'', JStr ''Lyon-true''), (''isCorrect'', JBool False)]])]]),
            (''count'', JInt 1)])"
proof -
  let ?cols = "[''question'', ''opt1'', ''opt2'']"
  let ?row = "[Str ''Capital of France?'', Str ''Paris'', Str '' Lyon-true '']"
  let ?df = "\<lparr>columns = ?cols, rows = [?row]\<rparr>"
  have h1: "''application/vnd.ms-excel'' \<in> set allowed_types"
    by (simp add: allowed_types_def)
  have h2: "''question'' \<in> set (columns ?df)" by simp
  have c1: "''opt1'' \<noteq> ''question''" by simp
  have c2: "\<not> is_blank (row_get ?cols ?row ''opt1'' NaN)" by code_simp
  have t: "strip (str (row_get ?cols ?row ''opt1'' NaN)) = ''Paris''" by code_simp
  have spec: "lenient_objective_spec ?df
       = Return (JDict
           [(''questions'', JList
              [JDict [(''question'', JStr ''Capital of France?''),
                      (''options'', JList
                         [JDict [(''text'', JStr ''Paris''), (''isCorrect'', JBool False)],
                          JDict [(''text'', JStr ''Lyon-true''), (''isCorrect'', JBool False)]])]]),
            (''count'', JInt 1)])"
    by code_simp
  note inst = C6_lenient_objective [OF h1 h2, of "''opt1''" ?cols ?row 0 "[]"]
  from inst c1 c2
  have cell: "process_column False ''objective'' 0 ?cols ?row ''opt1'' []
          = Inr [JDict [(''text'', JStr ''Paris''), (''isCorrect'', JBool False)]]"
    by (simp only: t append_Nil simp_thms)
  from inst have "parse_quiz_excel ''application/vnd.ms-excel'' ''objective'' False (Inr ?df)
                   = lenient_objective_spec ?df"
    by (rule conjunct2)
  then have whole: "parse_quiz_excel ''application/vnd.ms-excel'' ''objective'' False (Inr ?df)
       = Return (JDict
           [(''questions'', JList
              [JDict [(''question'', JStr ''Capital of France?''),
                      (''options'', JList
                         [JDict [(''text'', JStr ''Paris''), (''isCorrect'', JBool False)],
                          JDict [(''text'', JStr ''Lyon-true''), (''isCorrect'', JBool False)]])]]),
            (''count'', JInt 1)])"
    by (simp only: spec)
  from h1 h2 c1 c2 cell whole show ?thesis by blast
qed

text \<open>
  C10. With the option format required and the quiz type \<^verbatim>\<open>objective\<close>, a cell whose
  trimmed text is \<open>v-e\<close>, where \<open>e\<close> has no hyphen, \<open>v\<close> is not blank and the trimmed
  \<open>e\<close> is \<^verbatim>\<open>true\<close> or \<^verbatim>\<open>false\<close> in any case of letters, appends the option with the
  trimmed \<open>v\<close> as text; it is correct exactly when the trimmed \<open>e\<close> is \<^verbatim>\<open>true\<close> in small
  letters. So the white space around the last hyphen is dropped from both parts.
\<close>

theorem C10_trim_around_hyphen:
  assumes "col \<noteq> ''question''"
    and "\<not> is_blank (row_get cols row col NaN)"
    and "strip (str (row_get cols row col NaN)) = v @ ''-'' @ e"
    and "CHR ''-'' \<notin> set e"
    and "strip v \<noteq> []"
    and "lower (strip e) = ''true'' \<or> lower (strip e) = ''false''"
  shows "process_column True ''objective'' index cols row col options =
           Inr (options @ [JDict [(''text'', JStr (strip v)),
                                  (''isCorrect'', JBool (lower (strip e) = ''true''))]])"
proof -
  from assms(6) have "strip e \<noteq> []" by (auto simp: lower_def)
  with assms show ?thesis
    by (auto simp: process_column_strict format_option_split)
qed

theorem C10_four_true_witness:
  "''opt1'' \<noteq> ''question''
   \<and> \<not> is_blank (row_get [''question'', ''opt1''] [Str ''Q'', Str '' 4 - true ''] ''opt1'' NaN)
   \<and> strip (str (row_get [''question'', ''opt1''] [Str ''Q'', Str '' 4 - true ''] ''opt1'' NaN))
       = ''4 '' @ ''-'' @ '' true''
   \<and> CHR ''-'' \<notin> set '' true''
   \<and> strip ''4 '' \<noteq> []
   \<and> (lower (strip '' true'') = ''true'' \<or> lower (strip '' true'') = ''false'')
   \<and> process_column True ''objective'' 0 [''question'', ''opt1'']
         [Str ''Q'', Str '' 4 - true ''] ''opt1'' []
       = Inr [JDict [(''text'', JStr ''4''), (''isCorrect'', JBool True)]]
   \<and> lower (strip '' TRUE'') = ''true''
   \<and> process_column True ''objective'' 0 [''question'', ''opt1'']
         [Str ''Q'', Str '' 4 - TRUE ''] ''opt1'' []
       = Inr [JDict [(''text'', JStr ''4''), (''isCorrect'', JBool True)]]
   \<and> lower (strip ''  FaLsE'') = ''false''
   \<and> process_column True ''objective'' 0 [''question'', ''opt1'']
         [Str ''Q'', Str ''5 -  FaLsE''] ''opt1'' []
       = Inr [JDict [(''text'', JStr ''5''), (''isCorrect'', JBool False)]]"
proof -
  let ?cols = "[''question'', ''opt1'']"
  let ?row = "[Str ''Q'', Str '' 4 - true '']"
  let ?ROW = "[Str ''Q'', Str '' 4 - TRUE '']"
  let ?Row = "[Str ''Q'', Str ''5 -  FaLsE'']"
  have h1: "''opt1'' \<noteq> ''question''" by simp
  have h2: "\<not> is_blank (row_get ?cols ?row ''opt1'' NaN)" by code_simp
  have h3: "strip (str (row_get ?cols ?row ''opt1'' NaN)) = ''4 '' @ ''-'' @ '' true''"
    by code_simp
  have h4: "CHR ''-'' \<notin> set '' true''" by simp
  have h5: "strip ''4 '' \<noteq> []" by code_simp
  have s1: "strip ''4 '' = ''4''" by code_simp
  have s2: "lower (strip '' true'') = ''true''" by code_simp
  then have h6: "lower (strip '' true'') = ''true'' \<or> lower (strip '' true'') = ''false''"
    by (rule disjI1)
  from C10_trim_around_hyphen [OF h1 h2 h3 h4 h5 h6, of 0 "[]"]
  have small: "process_column True ''objective'' 0 ?cols ?row ''opt1'' []
          = Inr [JDict [(''text'', JStr ''4''), (''isCorrect'', JBool True)]]"
    by (simp only: s1 s2 append_Nil simp_thms)
  have H2: "\<not> is_blank (row_get ?cols ?ROW ''opt1'' NaN)" by code_simp
  have H3: "strip (str (row_get ?cols ?ROW ''opt1'' NaN)) = ''4 '' @ ''-'' @ '' TRUE''"
    by code_simp
  have H4: "CHR ''-'' \<notin> set '' TRUE''" by simp
  have S2: "lower (strip '' TRUE'') = ''true''" by code_simp
  then have H6: "lower (strip '' TRUE'') = ''true'' \<or> lower (strip '' TRUE'') = ''false''"
    by (rule disjI1)
  from C10_trim_around_hyphen [OF h1 H2 H3 H4 h5 H6, of 0 "[]"]
  have capital: "process_column True ''objective'' 0 ?cols ?ROW ''opt1'' []
          = Inr [JDict [(''text'', JStr ''4''), (''isCorrect'', JBool True)]]"
    by (simp only: s1 S2 append_Nil simp_thms)
  have m2: "\<not> is_blank (row_get ?cols ?Row ''opt1'' NaN)" by code_simp
  have m3: "strip (str (row_get ?cols ?Row ''opt1'' NaN)) = ''5 '' @ ''-'' @ ''  FaLsE''"
    by code_simp
  have m4: "CHR ''-'' \<notin> set ''  FaLsE''" by simp
  have m5: "strip ''5 '' \<noteq> []" by code_simp
  have t1: "strip ''5 '' = ''5''" by code_simp
  have t2: "lower (strip ''  FaLsE'') = ''false''" by code_simp
  then have m6: "lower (strip ''  FaLsE'') = ''true'' \<or> lower (strip ''  FaLsE'') = ''false''"
    by (rule disjI2)
  have ne: "(''false'' = ''true'') = False" by simp
  from C10_trim_around_hyphen [OF h1 m2 m3 m4 m5 m6, of 0 "[]"]
  have mixed: "process_column True ''objective'' 0 ?cols ?Row ''opt1'' []
          = Inr [JDict [(''text'', JStr ''5''), (''isCorrect'', JBool False)]]"
    by (simp only: t1 t2 ne append_Nil)
  from h1 h2 h3 h4 h5 h6 small S2 capital t2 mixed show ?thesis by blast
qed

end
